theory Spec2Isabelle
  imports Main
begin

section \<open>Values and exceptions\<close>

text \<open>
  The payloads of the vendor API are JSON documents. A decoded object is a Python
  \<open>dict\<close>, which keeps its keys in insertion order, so it is an association list here.
  No code path of \<open>session.py\<close> looks inside a number; a non-integral number keeps the
  text of its literal.
\<close>

datatype json =
    JNull
  | JBool bool
  | JNum int
  | JFloat string
  | JStr string
  | JArr "json list"
  | JObj "(string \<times> json) list"

text \<open>
  The exceptions that the code of \<open>session.py\<close> can raise or let through, and the values
  an attribute of an object can hold. The argument of \<open>UnboundLocalError\<close>, \<open>KeyError\<close>
  and \<open>AttributeError\<close> is the name of the variable, key or attribute that was missing.
  \<open>ResponseError\<close> is the class of the source with its two fields \<open>status_code\<close> and
  \<open>text\<close>; \<open>ClientError\<close> stands for whatever the HTTP transport raises,
  \<open>JSONDecodeError\<close> for the failure of the JSON decoder, \<open>ContentTypeError\<close> for the
  exception of \<open>aiohttp\<close> of that name.

  \<open>PAsyncMethod r\<close> is a bound coroutine method: calling it and awaiting the call gives
  \<open>r\<close>. \<open>PClient\<close> is the \<open>aiohttp.ClientSession\<close> that \<open>__init__\<close> opens.
\<close>

datatype error =
    ValueError
  | UnboundLocalError string
  | KeyError string
  | TypeError
  | AttributeError string
  | JSONDecodeError
  | ContentTypeError
  | ClientError
  | ResponseError pyval json
and pyval =
    PInt int
  | PStr string
  | PAsyncMethod "error + json"
  | PClient

type_synonym pyobj = "string \<rightharpoonup> pyval"

definition getattr :: "pyobj \<Rightarrow> string \<Rightarrow> error + pyval" where
  "getattr obj name = (case obj name of None \<Rightarrow> Inl (AttributeError name) | Some v \<Rightarrow> Inr v)"

text \<open>Sequencing: an exception of the first step leaves the rest undone.\<close>

definition then_do :: "error + 'a \<Rightarrow> ('a \<Rightarrow> error + 'b) \<Rightarrow> error + 'b" where
  "then_do r f = (case r of Inl e \<Rightarrow> Inl e | Inr x \<Rightarrow> f x)"

section \<open>The pieces of \<open>datetime\<close> used by \<open>fix_date_short\<close>\<close>

text \<open>
  A naive \<open>datetime\<close> value. The fields of a Python \<open>datetime\<close> are bounded
  (\<open>1 \<le> year \<le> 9999\<close>, \<open>1 \<le> month \<le> 12\<close>, a day of that month, \<open>hour < 24\<close>,
  \<open>minute < 60\<close>, \<open>second < 60\<close>); \<open>valid_datetime\<close> says so.
\<close>

record datetime =
  year :: nat
  month :: nat
  day :: nat
  hour :: nat
  minute :: nat
  second :: nat

definition is_leap :: "nat \<Rightarrow> bool" where
  "is_leap y \<longleftrightarrow> y mod 4 = 0 \<and> (0 < y mod 100 \<or> y mod 400 = 0)"

definition days_in_month :: "nat \<Rightarrow> nat \<Rightarrow> nat" where
  "days_in_month y m =
     (if m = 2 then (if is_leap y then 29 else 28)
      else if m = 4 \<or> m = 6 \<or> m = 9 \<or> m = 11 then 30
      else 31)"

definition valid_datetime :: "datetime \<Rightarrow> bool" where
  "valid_datetime t \<longleftrightarrow>
     1 \<le> year t \<and> year t \<le> 9999 \<and> 1 \<le> month t \<and> month t \<le> 12 \<and>
     1 \<le> day t \<and> day t \<le> days_in_month (year t) (month t) \<and>
     hour t < 24 \<and> minute t < 60 \<and> second t < 60"

subsection \<open>Characters\<close>

text \<open>
  A \<open>char\<close> stands for one code point below 256. On these, the regular expression
  classes \<open>\d\<close> and \<open>\s\<close> of Python's \<open>re\<close> (on \<open>str\<close> patterns) are the ten ASCII digits
  and the characters for which \<open>str.isspace\<close> holds.
\<close>

definition in_range :: "nat \<Rightarrow> nat \<Rightarrow> char \<Rightarrow> bool" where
  "in_range lo hi c \<longleftrightarrow> 48 + lo \<le> (of_char c :: nat) \<and> (of_char c :: nat) \<le> 48 + hi"

definition is_digit :: "char \<Rightarrow> bool" where
  "is_digit c \<longleftrightarrow> in_range 0 9 c"

definition is_space :: "char \<Rightarrow> bool" where
  "is_space c \<longleftrightarrow>
     (let n = (of_char c :: nat)
      in (9 \<le> n \<and> n \<le> 13) \<or> (28 \<le> n \<and> n \<le> 32) \<or> n = 133 \<or> n = 160)"

definition digit_val :: "char \<Rightarrow> nat" where
  "digit_val c = (of_char c :: nat) - 48"

definition digit_char :: "nat \<Rightarrow> char" where
  "digit_char d = char_of (48 + d)"

text \<open>
  \<open>%02d\<close> and \<open>%04d\<close> on the bounded fields of a \<open>datetime\<close>: two digits for a value
  below 100, four for a year below 10000.
\<close>

definition pad2 :: "nat \<Rightarrow> string" where
  "pad2 n = [digit_char (n div 10), digit_char (n mod 10)]"

definition pad4 :: "nat \<Rightarrow> string" where
  "pad4 n = [digit_char (n div 1000), digit_char (n div 100 mod 10),
             digit_char (n div 10 mod 10), digit_char (n mod 10)]"

subsection \<open>\<open>datetime.strptime(date_string, '%m/%d %H:%M')\<close>\<close>

text \<open>
  \<open>_strptime\<close> turns the format into the regular expression
  \<^verbatim>\<open>(?P<m>1[0-2]|0[1-9]|[1-9])/(?P<d>3[0-1]|[1-2]\d|0[1-9]|[1-9]| [1-9])\s+(?P<H>2[0-3]|[0-1]\d|\d):(?P<M>[0-5]\d|\d)\<close>
  and matches it at the start of the string. Each group below returns its matches in the
  order in which the backtracking matcher tries the alternatives, with the rest of the
  string.
\<close>

definition two :: "(char \<Rightarrow> bool) \<Rightarrow> (char \<Rightarrow> bool) \<Rightarrow> string \<Rightarrow> (nat \<times> string) list" where
  "two p q s =
     (case s of
        c1 # c2 # r \<Rightarrow> (if p c1 \<and> q c2 then [(10 * digit_val c1 + digit_val c2, r)] else [])
      | _ \<Rightarrow> [])"

definition one :: "(char \<Rightarrow> bool) \<Rightarrow> string \<Rightarrow> (nat \<times> string) list" where
  "one p s = (case s of c # r \<Rightarrow> (if p c then [(digit_val c, r)] else []) | [] \<Rightarrow> [])"

definition space_one :: "string \<Rightarrow> (nat \<times> string) list" where
  "space_one s =
     (case s of
        c1 # c2 # r \<Rightarrow> (if c1 = CHR '' '' \<and> in_range 1 9 c2 then [(digit_val c2, r)] else [])
      | _ \<Rightarrow> [])"

definition re_m :: "string \<Rightarrow> (nat \<times> string) list" where
  "re_m s = two (in_range 1 1) (in_range 0 2) s @ two (in_range 0 0) (in_range 1 9) s
            @ one (in_range 1 9) s"

definition re_d :: "string \<Rightarrow> (nat \<times> string) list" where
  "re_d s = two (in_range 3 3) (in_range 0 1) s @ two (in_range 1 2) is_digit s
            @ two (in_range 0 0) (in_range 1 9) s @ one (in_range 1 9) s @ space_one s"

definition re_H :: "string \<Rightarrow> (nat \<times> string) list" where
  "re_H s = two (in_range 2 2) (in_range 0 3) s @ two (in_range 0 1) is_digit s
            @ one is_digit s"

definition re_M :: "string \<Rightarrow> (nat \<times> string) list" where
  "re_M s = two (in_range 0 5) is_digit s @ one is_digit s"

definition lit :: "char \<Rightarrow> string \<Rightarrow> string list" where
  "lit c s = (case s of x # r \<Rightarrow> (if x = c then [r] else []) | [] \<Rightarrow> [])"

text \<open>
  \<open>\s+\<close> is greedy. The group after it starts with a digit, which is no white space, so
  giving back white space never leads to a match and the longest run is the only
  candidate.
\<close>

definition spaces :: "string \<Rightarrow> string list" where
  "spaces s = (case s of c # r \<Rightarrow> (if is_space c then [dropWhile is_space r] else []) | [] \<Rightarrow> [])"

definition matches :: "string \<Rightarrow> (nat \<times> nat \<times> nat \<times> nat \<times> string) list" where
  "matches s =
     [(m, d, h, mi, r7).
        (m, r1) \<leftarrow> re_m s, r2 \<leftarrow> lit CHR ''/'' r1,
        (d, r3) \<leftarrow> re_d r2, r4 \<leftarrow> spaces r3,
        (h, r5) \<leftarrow> re_H r4, r6 \<leftarrow> lit CHR '':'' r5,
        (mi, r7) \<leftarrow> re_M r6]"

text \<open>
  \<open>strptime\<close> raises \<open>ValueError\<close> when the expression does not match, when the match
  does not reach the end of the string, and when the day does not exist in that month of
  the year 1900, the year \<open>strptime\<close> fills in when the format has none. 1900 is not a
  leap year.
\<close>

definition strptime :: "string \<Rightarrow> error + datetime" where
  "strptime s =
     (case matches s of
        [] \<Rightarrow> Inl ValueError
      | (m, d, h, mi, r) # _ \<Rightarrow>
          if r \<noteq> [] then Inl ValueError
          else if days_in_month 1900 m < d then Inl ValueError
          else Inr \<lparr>year = 1900, month = m, day = d, hour = h, minute = mi, second = 0\<rparr>)"

text \<open>\<open>result.replace(y)\<close>: the first positional argument of \<open>replace\<close> is the year.\<close>

definition replace_year :: "datetime \<Rightarrow> nat \<Rightarrow> error + datetime" where
  "replace_year t y =
     (if y < 1 \<or> 9999 < y then Inl ValueError
      else if days_in_month y (month t) < day t then Inl ValueError
      else Inr (t\<lparr>year := y\<rparr>))"

text \<open>\<open>strftime('%m/%d')\<close> and \<open>isoformat()\<close> (the microseconds are zero).\<close>

definition strftime_md :: "datetime \<Rightarrow> string" where
  "strftime_md t = pad2 (month t) @ ''/'' @ pad2 (day t)"

definition isoformat :: "datetime \<Rightarrow> string" where
  "isoformat t = pad4 (year t) @ ''-'' @ pad2 (month t) @ ''-'' @ pad2 (day t) @ ''T''
                 @ pad2 (hour t) @ '':'' @ pad2 (minute t) @ '':'' @ pad2 (second t)"

section \<open>\<open>fix_date_short\<close>\<close>

text \<open>
  The \<open>try\<close> block holds two statements: the call of \<open>strptime\<close>, which binds \<open>result\<close>,
  and the call of \<open>replace\<close>, which binds it again. \<open>try_block\<close> returns the binding of
  \<open>result\<close> after the block (\<open>None\<close>: unbound) and the exception that left it, if any.
  \<open>now\<close> is the reading of the clock, \<open>datetime.now()\<close>, taken to be the same throughout
  one call.
\<close>

definition try_block :: "datetime \<Rightarrow> string \<Rightarrow> datetime option \<times> error option" where
  "try_block now date_string =
     (case strptime date_string of
        Inl e \<Rightarrow> (None, Some e)
      | Inr result \<Rightarrow>
          (case replace_year result (year now) of
             Inl e \<Rightarrow> (Some result, Some e)
           | Inr result' \<Rightarrow> (Some result', None)))"

text \<open>\<open>return result.isoformat()\<close>, the last line of the function.\<close>

definition return_result :: "datetime option \<Rightarrow> error + string" where
  "return_result result =
     (case result of
        None \<Rightarrow> Inl (UnboundLocalError ''result'')
      | Some t \<Rightarrow> Inr (isoformat t))"

function fix_date_short :: "datetime \<Rightarrow> string \<Rightarrow> error + string" where
  "fix_date_short now date_string =
     (let (result, raised) = try_block now date_string
      in if raised = None then return_result result
         else if take 5 date_string = ''Today''
           then fix_date_short now (strftime_md now @ drop 5 date_string)
         else if take 9 date_string = ''Yesterday''
           then fix_date_short now (strftime_md now @ drop 9 date_string)
         else return_result result)"
  by pat_completeness auto

termination
  by (relation "measure (\<lambda>(now, s). if take 5 s = ''Today'' \<or> take 9 s = ''Yesterday'' then 1 else 0)")
     (auto simp add: strftime_md_def pad2_def)

declare fix_date_short.simps [simp del]

section \<open>Decoded payloads\<close>

text \<open>
  Subscription, item assignment and iteration on a decoded JSON value. Only a \<open>dict\<close>
  takes a string key; a \<open>list\<close>, a \<open>str\<close> and the scalars raise \<open>TypeError\<close>.
  Assigning to a key that is present keeps the key's place; a new key goes last.
\<close>

fun dict_set :: "string \<Rightarrow> json \<Rightarrow> (string \<times> json) list \<Rightarrow> (string \<times> json) list" where
  "dict_set k v [] = [(k, v)]"
| "dict_set k v ((k', v') # kvs) =
     (if k' = k then (k, v) # kvs else (k', v') # dict_set k v kvs)"

definition getitem :: "json \<Rightarrow> string \<Rightarrow> error + json" where
  "getitem obj key =
     (case obj of
        JObj kvs \<Rightarrow> (case map_of kvs key of None \<Rightarrow> Inl (KeyError key) | Some v \<Rightarrow> Inr v)
      | _ \<Rightarrow> Inl TypeError)"

definition setitem :: "json \<Rightarrow> string \<Rightarrow> json \<Rightarrow> error + json" where
  "setitem obj key v =
     (case obj of
        JObj kvs \<Rightarrow> Inr (JObj (dict_set key v kvs))
      | _ \<Rightarrow> Inl TypeError)"

text \<open>
  \<open>for x in v\<close>: a list gives its elements, a dict its keys, a string its characters;
  the scalars are not iterable.
\<close>

definition iterate :: "json \<Rightarrow> error + json list" where
  "iterate v =
     (case v of
        JArr xs \<Rightarrow> Inr xs
      | JObj kvs \<Rightarrow> Inr (map (\<lambda>kv. JStr (fst kv)) kvs)
      | JStr s \<Rightarrow> Inr (map (\<lambda>c. JStr [c]) s)
      | _ \<Rightarrow> Inl TypeError)"

text \<open>
  \<open>fix_date_short\<close> called on a decoded value: \<open>strptime\<close> raises \<open>TypeError\<close>, which the
  \<open>except ValueError\<close> clause does not catch, when its argument is not a \<open>str\<close>.
\<close>

definition fix_date_short_value :: "datetime \<Rightarrow> json \<Rightarrow> error + json" where
  "fix_date_short_value now v =
     (case v of
        JStr s \<Rightarrow> then_do (fix_date_short now s) (\<lambda>stamp. Inr (JStr stamp))
      | _ \<Rightarrow> Inl TypeError)"

section \<open>\<open>_validate_response\<close> and \<open>ResponseError\<close>\<close>

text \<open>
  \<open>json.loads\<close> is a parameter, \<open>loads\<close>, of everything that decodes. On a value that is
  not a \<open>str\<close> it raises \<open>TypeError\<close>.
\<close>

type_synonym decoder = "string \<Rightarrow> error + json"

definition json_loads :: "decoder \<Rightarrow> pyval \<Rightarrow> error + json" where
  "json_loads loads v = (case v of PStr s \<Rightarrow> loads s | _ \<Rightarrow> Inl TypeError)"

text \<open>
  \<open>ResponseError.__init__\<close>: the message is formatted (which cannot fail), then the two
  fields are set, the second to \<open>json.loads(text)\<close>. The result is the exception built,
  or the exception that building it raised.
\<close>

definition response_error :: "decoder \<Rightarrow> pyval \<Rightarrow> pyval \<Rightarrow> error + error" where
  "response_error loads status_code text_arg =
     then_do (json_loads loads text_arg) (\<lambda>decoded. Inr (ResponseError status_code decoded))"

definition call_await :: "pyval \<Rightarrow> error + json" where
  "call_await v = (case v of PAsyncMethod r \<Rightarrow> r | _ \<Rightarrow> Inl TypeError)"

definition validate_response :: "decoder \<Rightarrow> pyobj \<Rightarrow> error + json" where
  "validate_response loads response =
     then_do (getattr response ''status'') (\<lambda>status.
       if status = PInt 200
       then then_do (getattr response ''json'') call_await
       else then_do (getattr response ''status_code'') (\<lambda>status_code.
            then_do (getattr response ''text'') (\<lambda>text_arg.
            then_do (response_error loads status_code text_arg) Inl)))"

text \<open>
  \<open>await response.json()\<close> on an \<open>aiohttp.ClientResponse\<close> whose body has been read as
  the given text. In this order: it raises \<open>ContentTypeError\<close> unless the Content-Type of
  the reply is a JSON mimetype; it strips the white space of ASCII from both ends of the
  body and returns \<open>None\<close>, without decoding, when nothing is left; otherwise it returns
  what the decoder makes of the stripped body.
\<close>

definition is_ascii_space :: "char \<Rightarrow> bool" where
  "is_ascii_space c \<longleftrightarrow> (let n = (of_char c :: nat) in (9 \<le> n \<and> n \<le> 13) \<or> n = 32)"

definition strip :: "string \<Rightarrow> string" where
  "strip s = rev (dropWhile is_ascii_space (rev (dropWhile is_ascii_space s)))"

definition await_json :: "decoder \<Rightarrow> bool \<Rightarrow> string \<Rightarrow> error + json" where
  "await_json loads json_mimetype body =
     (if json_mimetype
      then (if strip body = [] then Inr JNull else loads (strip body))
      else Inl ContentTypeError)"

text \<open>
  What the transport hands back: an \<open>aiohttp.ClientResponse\<close> for a reply with the given
  status, Content-Type (a JSON mimetype or not) and body. It has the attribute \<open>status\<close>
  and the coroutine methods \<open>json\<close> and \<open>text\<close> (the body); it has no attribute
  \<open>status_code\<close>. \<open>client_response\<close> is the response for a reply whose Content-Type is
  \<open>application/json\<close>.
\<close>

definition aiohttp_response :: "decoder \<Rightarrow> int \<Rightarrow> bool \<Rightarrow> string \<Rightarrow> pyobj" where
  "aiohttp_response loads status json_mimetype body =
     [''status'' \<mapsto> PInt status,
      ''json'' \<mapsto> PAsyncMethod (await_json loads json_mimetype body),
      ''text'' \<mapsto> PAsyncMethod (Inr (JStr body))]"

definition client_response :: "decoder \<Rightarrow> int \<Rightarrow> string \<Rightarrow> pyobj" where
  "client_response loads status body = aiohttp_response loads status True body"

text \<open>
  A decoder that knows the documents of a table; it is what the examples below decode
  with.
\<close>

definition table_loads :: "(string \<times> json) list \<Rightarrow> decoder" where
  "table_loads table s = (case map_of table s of None \<Rightarrow> Inl JSONDecodeError | Some v \<Rightarrow> Inr v)"

section \<open>Requests\<close>

text \<open>
  Modelled from the spec: the module \<open>urls\<close> is not among the sources; the spec has its
  functions as pure string formatting. A URL is kept as the name of the function of
  \<open>urls\<close> that builds it and the arguments of the call. A header value built by
  \<open>str.format\<close> is kept the same way.
\<close>

datatype url = Url string "pyval list"

datatype hvalue = Literal string | Format string "pyval list"

record request =
  verb :: string
  url :: url
  headers :: "(string \<times> hvalue) list"
  params :: "(string \<times> int) list"
  data :: "json option"

type_synonym transport = "request \<Rightarrow> error + pyobj"

text \<open>
  The state: the attributes of the \<open>Session\<close> object, and the requests handed to the
  transport so far.
\<close>

record world =
  this :: pyobj
  sent :: "request list"

definition init :: "pyval \<Rightarrow> pyval \<Rightarrow> pyval \<Rightarrow> world" where
  "init username password panel =
     \<lparr>this = [''_username'' \<mapsto> username, ''_password'' \<mapsto> password,
              ''_panel'' \<mapsto> panel, ''session'' \<mapsto> PClient],
      sent = []\<rparr>"

text \<open>
  \<open>self.session.get\<close>, \<open>.put\<close>, \<open>.delete\<close>: the attribute \<open>session\<close> of the object, then
  the method of the client of that name. Python looks both up before it evaluates the
  arguments of the call.
\<close>

definition client_method :: "pyobj \<Rightarrow> string \<Rightarrow> error + string" where
  "client_method self name =
     then_do (getattr self ''session'') (\<lambda>client.
       if client = PClient then Inr name else Inl (AttributeError name))"

text \<open>
  The call shared by the operations that authenticate in the URL:
  \<open>self.session.get(urls.f(self._username, self._password, self._panel, ...))\<close>.
\<close>

definition credentials_get :: "pyobj \<Rightarrow> string \<Rightarrow> pyval list \<Rightarrow> (string \<times> int) list \<Rightarrow> error + request" where
  "credentials_get self f extra ps =
     then_do (client_method self ''get'') (\<lambda>v.
     then_do (getattr self ''_username'') (\<lambda>username.
     then_do (getattr self ''_password'') (\<lambda>password.
     then_do (getattr self ''_panel'') (\<lambda>panel.
       Inr \<lparr>verb = v, url = Url f ([username, password, panel] @ extra),
            headers = [], params = ps, data = None\<rparr>))))"

text \<open>
  \<open>await self.session.get(...)\<close>: when the request was built, it goes to the transport,
  which answers with a response object or raises.
\<close>

definition send :: "transport \<Rightarrow> error + request \<Rightarrow> world \<Rightarrow> (error + pyobj) \<times> world" where
  "send net prepared w =
     (case prepared of
        Inl e \<Rightarrow> (Inl e, w)
      | Inr req \<Rightarrow> (net req, w\<lparr>sent := sent w @ [req]\<rparr>))"

text \<open>The two lines every operation has: send, then \<open>_validate_response\<close>.\<close>

definition exchange :: "transport \<Rightarrow> decoder \<Rightarrow> error + request \<Rightarrow> world \<Rightarrow> (error + json) \<times> world" where
  "exchange net loads prepared w =
     (let (response, w') = send net prepared w
      in (then_do response (validate_response loads), w'))"

section \<open>The operations of \<open>Session\<close>\<close>

definition get_arm_state :: "transport \<Rightarrow> decoder \<Rightarrow> datetime \<Rightarrow> world \<Rightarrow> (error + json) \<times> world" where
  "get_arm_state net loads now w =
     (let (res, w') = exchange net loads (credentials_get (this w) ''status'' [] []) w
      in (then_do res (\<lambda>res.
          then_do (getitem res ''timeex'') (\<lambda>t.
          then_do (fix_date_short_value now t) (\<lambda>t'.
            setitem res ''timeex'' t'))), w'))"

text \<open>
  The list comprehension of \<open>get_temperature\<close>: the elements whose \<open>serialNo\<close> equals the
  label, in order; an element without that key stops it.
\<close>

fun filter_serial :: "string \<Rightarrow> json list \<Rightarrow> error + json list" where
  "filter_serial label [] = Inr []"
| "filter_serial label (i # items) =
     then_do (getitem i ''serialNo'') (\<lambda>serial.
     then_do (filter_serial label items) (\<lambda>kept.
       Inr (if serial = JStr label then i # kept else kept)))"

definition get_temperature :: "transport \<Rightarrow> decoder \<Rightarrow> string option \<Rightarrow> world \<Rightarrow> (error + json) \<times> world" where
  "get_temperature net loads device_label w =
     (let (res, w') = exchange net loads (credentials_get (this w) ''get_temperature'' [] []) w
      in (then_do res (\<lambda>res.
            case device_label of
              None \<Rightarrow> Inr res
            | Some label \<Rightarrow>
                then_do (getitem res ''temperatureComponentList'') (\<lambda>components.
                then_do (iterate components) (\<lambda>items.
                then_do (filter_serial label items) (\<lambda>kept.
                  setitem res ''temperatureComponentList'' (JArr kept))))), w'))"

definition get_ethernet_status :: "transport \<Rightarrow> decoder \<Rightarrow> world \<Rightarrow> (error + json) \<times> world" where
  "get_ethernet_status net loads w =
     exchange net loads (credentials_get (this w) ''get_ethernet_status'' [] []) w"

definition get_lock_devices :: "transport \<Rightarrow> decoder \<Rightarrow> world \<Rightarrow> (error + json) \<times> world" where
  "get_lock_devices net loads w =
     exchange net loads (credentials_get (this w) ''get_doorlock_devices'' [] []) w"

definition get_lock_status :: "transport \<Rightarrow> decoder \<Rightarrow> world \<Rightarrow> (error + json) \<times> world" where
  "get_lock_status net loads w =
     exchange net loads (credentials_get (this w) ''get_doorlock_status'' [] []) w"

definition set_arm_state_request :: "pyobj \<Rightarrow> string \<Rightarrow> string \<Rightarrow> error + request" where
  "set_arm_state_request self code state =
     then_do (client_method self ''put'') (\<lambda>v.
     then_do (getattr self ''_giid'') (\<lambda>giid.
     then_do (getattr self ''_vid'') (\<lambda>vid.
       Inr \<lparr>verb = v, url = Url ''set_armstate'' [giid],
            headers = [(''Accept'', Literal ''application/json, text/javascript, */*; q=0.01''),
                       (''Content-Type'', Literal ''application/json''),
                       (''Cookie'', Format ''vid={}'' [vid])],
            params = [],
            data = Some (JObj [(''code'', JStr code), (''state'', JStr state)])\<rparr>)))"

definition set_arm_state :: "transport \<Rightarrow> decoder \<Rightarrow> string \<Rightarrow> string \<Rightarrow> world \<Rightarrow> (error + json) \<times> world" where
  "set_arm_state net loads code state w =
     exchange net loads (set_arm_state_request (this w) code state) w"

text \<open>
  The loop of \<open>get_history\<close>. It assigns to each row in turn, so the rows before the
  first failure are changed and the exception leaves the loop there.
\<close>

fun fix_rows :: "datetime \<Rightarrow> json list \<Rightarrow> error + json list" where
  "fix_rows now [] = Inr []"
| "fix_rows now (row # rows) =
     then_do (getitem row ''time'') (\<lambda>t.
     then_do (fix_date_short_value now t) (\<lambda>t'.
     then_do (setitem row ''time'' t') (\<lambda>row'.
     then_do (fix_rows now rows) (\<lambda>rows'.
       Inr (row' # rows')))))"

text \<open>
  The rows of a list are its elements, changed in place, so the list under \<open>logs\<close> holds
  the changed rows afterwards. The keys of a dict and the characters of a string take no
  item assignment: the loop over them ends without an exception only when there are none.
\<close>

definition get_history :: "transport \<Rightarrow> decoder \<Rightarrow> datetime \<Rightarrow> int \<Rightarrow> world \<Rightarrow> (error + json) \<times> world" where
  "get_history net loads now offset w =
     (let (res, w') = exchange net loads
                        (credentials_get (this w) ''history'' [] [(''startIndex'', offset)]) w
      in (then_do res (\<lambda>res.
          then_do (getitem res ''logs'') (\<lambda>logs.
          then_do (iterate logs) (\<lambda>rows.
          then_do (fix_rows now rows) (\<lambda>rows'.
            case logs of
              JArr _ \<Rightarrow> setitem res ''logs'' (JArr rows')
            | _ \<Rightarrow> Inr res)))), w'))"

definition lock_doorlock :: "transport \<Rightarrow> decoder \<Rightarrow> pyval \<Rightarrow> pyval \<Rightarrow> world \<Rightarrow> (error + json) \<times> world" where
  "lock_doorlock net loads serialNo code w =
     exchange net loads (credentials_get (this w) ''lock_doorlock'' [serialNo, code] []) w"

definition unlock_doorlock :: "transport \<Rightarrow> decoder \<Rightarrow> pyval \<Rightarrow> pyval \<Rightarrow> world \<Rightarrow> (error + json) \<times> world" where
  "unlock_doorlock net loads serialNo code w =
     exchange net loads (credentials_get (this w) ''unlock_doorlock'' [serialNo, code] []) w"

definition get_lock_config_request :: "pyobj \<Rightarrow> pyval \<Rightarrow> error + request" where
  "get_lock_config_request self device_label =
     then_do (client_method self ''get'') (\<lambda>v.
     then_do (getattr self ''_giid'') (\<lambda>giid.
     then_do (getattr self ''_vid'') (\<lambda>vid.
       Inr \<lparr>verb = v, url = Url ''lockconfig'' [giid, device_label],
            headers = [(''Accept'', Literal ''application/json, text/javascript, */*; q=0.01''),
                       (''Cookie'', Format ''vid={}'' [vid])],
            params = [], data = None\<rparr>)))"

definition get_lock_config :: "transport \<Rightarrow> decoder \<Rightarrow> pyval \<Rightarrow> world \<Rightarrow> (error + json) \<times> world" where
  "get_lock_config net loads device_label w =
     exchange net loads (get_lock_config_request (this w) device_label) w"

definition logout_request :: "pyobj \<Rightarrow> error + request" where
  "logout_request self =
     then_do (client_method self ''delete'') (\<lambda>v.
     then_do (getattr self ''_vid'') (\<lambda>vid.
       Inr \<lparr>verb = v, url = Url ''login'' [],
            headers = [(''Cookie'', Format ''vid={}'' [vid])],
            params = [], data = None\<rparr>))"

text \<open>\<open>logout\<close> has no \<open>return\<close>: its value is \<open>None\<close>.\<close>

definition logout :: "transport \<Rightarrow> decoder \<Rightarrow> world \<Rightarrow> (error + json) \<times> world" where
  "logout net loads w =
     (let (res, w') = exchange net loads (logout_request (this w)) w
      in (then_do res (\<lambda>_. Inr JNull), w'))"

text \<open>
  A call of an operation, with what the world gives it: the transport's answers, the
  decoder and the reading of the clock.
\<close>

datatype call =
    GetArmState
  | GetTemperature "string option"
  | GetEthernetStatus
  | GetLockDevices
  | GetLockStatus
  | SetArmState string string
  | GetHistory int
  | LockDoorlock pyval pyval
  | UnlockDoorlock pyval pyval
  | GetLockConfig pyval
  | Logout

fun run_call :: "transport \<Rightarrow> decoder \<Rightarrow> datetime \<Rightarrow> call \<Rightarrow> world \<Rightarrow> (error + json) \<times> world" where
  "run_call net loads now GetArmState w = get_arm_state net loads now w"
| "run_call net loads now (GetTemperature device_label) w = get_temperature net loads device_label w"
| "run_call net loads now GetEthernetStatus w = get_ethernet_status net loads w"
| "run_call net loads now GetLockDevices w = get_lock_devices net loads w"
| "run_call net loads now GetLockStatus w = get_lock_status net loads w"
| "run_call net loads now (SetArmState code state) w = set_arm_state net loads code state w"
| "run_call net loads now (GetHistory offset) w = get_history net loads now offset w"
| "run_call net loads now (LockDoorlock serialNo code) w = lock_doorlock net loads serialNo code w"
| "run_call net loads now (UnlockDoorlock serialNo code) w = unlock_doorlock net loads serialNo code w"
| "run_call net loads now (GetLockConfig device_label) w = get_lock_config net loads device_label w"
| "run_call net loads now Logout w = logout net loads w"

fun run_calls :: "(transport \<times> decoder \<times> datetime \<times> call) list \<Rightarrow> world \<Rightarrow> world" where
  "run_calls [] w = w"
| "run_calls ((net, loads, now, c) # cs) w = run_calls cs (snd (run_call net loads now c w))"

section \<open>The short date as the spec writes it\<close>

text \<open>
  Following the words of the spec, not the source: \<open>MM/DD HH:MM\<close>, two digits for each
  of month, day, hour and minute.
\<close>

definition short_date :: "nat \<Rightarrow> nat \<Rightarrow> nat \<Rightarrow> nat \<Rightarrow> string" where
  "short_date m d h mi = pad2 m @ ''/'' @ pad2 d @ '' '' @ pad2 h @ '':'' @ pad2 mi"

section \<open>The arm state as the spec words it\<close>

text \<open>
  Following the words of the spec, not the source: the payload of the arm state with its
  \<open>time\<close> field replaced by the normalized form of that field. It is what
  \<open>get_arm_state\<close> is compared with.
\<close>

definition arm_state_as_claimed :: "datetime \<Rightarrow> json \<Rightarrow> error + json" where
  "arm_state_as_claimed now payload =
     then_do (getitem payload ''time'') (\<lambda>t.
     then_do (fix_date_short_value now t) (\<lambda>t'.
       setitem payload ''time'' t'))"

section \<open>Examples\<close>

text \<open>
  A reference time, the 29th of February of a leap year, a session as \<open>__init__\<close> leaves
  it, and a server that answers every request with status 200 and a given body.
\<close>

definition example_now :: datetime where
  "example_now = \<lparr>year = 2024, month = 3, day = 5, hour = 10, minute = 0, second = 0\<rparr>"

definition leap_day :: datetime where
  "leap_day = \<lparr>year = 2024, month = 2, day = 29, hour = 8, minute = 0, second = 0\<rparr>"

definition example_session :: world where
  "example_session = init (PStr ''user'') (PStr ''secret'') (PStr ''panel-1'')"

definition replies :: "decoder \<Rightarrow> int \<Rightarrow> string \<Rightarrow> transport" where
  "replies loads status body = (\<lambda>req. Inr (client_response loads status body))"

definition error_body :: string where
  \<open>error_body = ''{"msg":"bad"}''\<close>

definition error_payload :: json where
  "error_payload = JObj [(''msg'', JStr ''bad'')]"

definition arm_state_body :: string where
  \<open>arm_state_body = ''{"ArmedStatus":"disarmed","time":"Today 14:30","timeex":"03/04 21:15"}''\<close>

definition arm_state_payload :: json where
  "arm_state_payload =
     JObj [(''ArmedStatus'', JStr ''disarmed''), (''time'', JStr ''Today 14:30''),
           (''timeex'', JStr ''03/04 21:15'')]"

definition temperature_body :: string where
  \<open>temperature_body =
     ''{"temperatureComponentList":[{"serialNo":"ABC123","temperature":"21"},{"serialNo":"XYZ999","temperature":"19"}]}''\<close>

definition temperature_payload :: json where
  "temperature_payload =
     JObj [(''temperatureComponentList'',
            JArr [JObj [(''serialNo'', JStr ''ABC123''), (''temperature'', JStr ''21'')],
                  JObj [(''serialNo'', JStr ''XYZ999''), (''temperature'', JStr ''19'')]])]"

definition history_body :: string where
  \<open>history_body =
     ''{"logs":[{"time":"Today 14:30","event":"armed"},{"event":"disarmed","time":"03/04 21:15"}]}''\<close>

definition history_payload :: json where
  "history_payload =
     JObj [(''logs'',
            JArr [JObj [(''time'', JStr ''Today 14:30''), (''event'', JStr ''armed'')],
                  JObj [(''event'', JStr ''disarmed''), (''time'', JStr ''03/04 21:15'')]])]"

definition malformed_history_body :: string where
  \<open>malformed_history_body =
     ''{"logs":[{"time":"Today 14:30","event":"armed"},{"event":"disarmed","time":"not-a-date"}]}''\<close>

definition malformed_history_payload :: json where
  "malformed_history_payload =
     JObj [(''logs'',
            JArr [JObj [(''time'', JStr ''Today 14:30''), (''event'', JStr ''armed'')],
                  JObj [(''event'', JStr ''disarmed''), (''time'', JStr ''not-a-date'')]])]"

definition leap_history_body :: string where
  \<open>leap_history_body =
     ''{"logs":[{"time":"Today 14:30","event":"armed"},{"event":"disarmed","time":"02/29 10:00"}]}''\<close>

definition leap_history_payload :: json where
  "leap_history_payload =
     JObj [(''logs'',
            JArr [JObj [(''time'', JStr ''Today 14:30''), (''event'', JStr ''armed'')],
                  JObj [(''event'', JStr ''disarmed''), (''time'', JStr ''02/29 10:00'')]])]"

definition small_body :: string where
  \<open>small_body = ''{"a":1}''\<close>

definition small_payload :: json where
  "small_payload = JObj [(''a'', JNum 1)]"

definition example_loads :: decoder where
  "example_loads =
     table_loads [(error_body, error_payload), (arm_state_body, arm_state_payload),
                  (temperature_body, temperature_payload), (history_body, history_payload),
                  (malformed_history_body, malformed_history_payload),
                  (leap_history_body, leap_history_payload), (small_body, small_payload)]"

section \<open>Properties of \<open>fix_date_short\<close>\<close>

text \<open>The four ways through the body, by what the \<open>try\<close> block did.\<close>

lemma fix_date_short_returns:
  "try_block now s = (result, None) \<Longrightarrow> fix_date_short now s = return_result result"
  by (subst fix_date_short.simps) simp

lemma fix_date_short_today:
  "try_block now s = (result, Some x) \<Longrightarrow> take 5 s = ''Today'' \<Longrightarrow>
   fix_date_short now s = fix_date_short now (strftime_md now @ drop 5 s)"
  by (subst fix_date_short.simps) simp

lemma fix_date_short_yesterday:
  "try_block now s = (result, Some x) \<Longrightarrow> take 5 s \<noteq> ''Today'' \<Longrightarrow>
   take 9 s = ''Yesterday'' \<Longrightarrow>
   fix_date_short now s = fix_date_short now (strftime_md now @ drop 9 s)"
  by (subst fix_date_short.simps) simp

lemma fix_date_short_falls_through:
  "try_block now s = (result, Some x) \<Longrightarrow> take 5 s \<noteq> ''Today'' \<Longrightarrow>
   take 9 s \<noteq> ''Yesterday'' \<Longrightarrow> fix_date_short now s = return_result result"
  by (subst fix_date_short.simps) simp

lemma return_result_error: "return_result r = Inl e \<Longrightarrow> e = UnboundLocalError ''result''"
  by (auto simp: return_result_def split: option.splits)

text \<open>
  Whatever the input, the only exception that leaves \<open>fix_date_short\<close> is the
  \<open>UnboundLocalError\<close> of its last line: the \<open>ValueError\<close> of \<open>strptime\<close>, whose message
  quotes the string, is caught and dropped.
\<close>

lemma fix_date_short_error:
  "fix_date_short now s = Inl e \<Longrightarrow> e = UnboundLocalError ''result''"
proof (induction now s rule: fix_date_short.induct)
  case (1 now date_string)
  obtain result raised where tb: "try_block now date_string = (result, raised)"
    by (cases "try_block now date_string")
  show ?case
  proof (cases raised)
    case None
    with tb "1.prems" show ?thesis
      by (simp add: fix_date_short_returns return_result_error)
  next
    case (Some x)
    note tb' = tb [unfolded Some]
    have raised: "raised \<noteq> None" using Some by simp
    show ?thesis
    proof (cases "take 5 date_string = ''Today''")
      case True
      from "1.prems" have "fix_date_short now (strftime_md now @ drop 5 date_string) = Inl e"
        by (simp add: fix_date_short_today [OF tb' True])
      with "1.IH"(1) [OF tb [symmetric] refl raised True] show ?thesis .
    next
      case nt: False
      show ?thesis
      proof (cases "take 9 date_string = ''Yesterday''")
        case True
        from "1.prems" have "fix_date_short now (strftime_md now @ drop 9 date_string) = Inl e"
          by (simp add: fix_date_short_yesterday [OF tb' nt True])
        with "1.IH"(2) [OF tb [symmetric] refl raised nt True] show ?thesis .
      next
        case False
        from "1.prems" show ?thesis
          by (simp add: fix_date_short_falls_through [OF tb' nt False] return_result_error)
      qed
    qed
  qed
qed

subsection \<open>Two-digit fields\<close>

text \<open>
  How the parser reads a string written with two digits per field, \<open>short_date\<close>. The
  digit characters first, then each group of the expression with the separator after it:
  of the alternatives of a group, one leads on.
\<close>

lemma of_char_digit_char: "k < 10 \<Longrightarrow> (of_char (digit_char k) :: nat) = 48 + k"
  by (simp add: digit_char_def)
lemma in_range_digit_char: "k < 10 \<Longrightarrow> in_range lo hi (digit_char k) \<longleftrightarrow> lo \<le> k \<and> k \<le> hi"
  by (simp add: in_range_def of_char_digit_char)
lemma is_digit_digit_char: "k < 10 \<Longrightarrow> is_digit (digit_char k)"
  by (simp add: is_digit_def in_range_digit_char)
lemma digit_val_digit_char: "k < 10 \<Longrightarrow> digit_val (digit_char k) = k"
  by (simp add: digit_val_def of_char_digit_char)
lemma digit_char_not_space: "k < 10 \<Longrightarrow> \<not> is_space (digit_char k)"
  by (simp add: is_space_def of_char_digit_char Let_def)
lemma digit_char_neq:
  assumes "k < 10" and "(of_char c :: nat) < 48 \<or> 57 < (of_char c :: nat)"
  shows "digit_char k \<noteq> c" and "c \<noteq> digit_char k"
  using assms of_char_digit_char [of k] by auto

lemmas digit_char_simps =
  in_range_digit_char is_digit_digit_char digit_val_digit_char digit_char_not_space
  digit_char_neq [of _ "CHR ''/''", simplified] digit_char_neq [of _ "CHR '':''", simplified]
  digit_char_neq [of _ "CHR '' ''", simplified]

lemma is_space_blank: "is_space CHR '' ''"
  by (simp add: is_space_def)

lemma stage_m:
  assumes "a < 10" and "b < 10" and "1 \<le> 10 * a + b" and "10 * a + b \<le> 12"
  shows "concat (map (\<lambda>(m', r1). concat (map (K m') (lit CHR ''/'' r1)))
           (re_m (digit_char a # digit_char b # CHR ''/'' # r))) = K (10 * a + b) r"
  using assms
  by (auto simp: re_m_def two_def one_def lit_def digit_char_simps)

lemma stage_d:
  assumes "a < 10" and "b < 10" and "1 \<le> 10 * a + b" and "10 * a + b \<le> 31" and "c < 10"
  shows "concat (map (\<lambda>(d', r3). concat (map (K d') (spaces r3)))
           (re_d (digit_char a # digit_char b # CHR '' '' # digit_char c # r)))
         = K (10 * a + b) (digit_char c # r)"
  using assms
  by (auto simp: re_d_def two_def one_def space_one_def spaces_def digit_char_simps is_space_blank)

lemma stage_H:
  assumes "a < 10" and "b < 10" and "10 * a + b < 24"
  shows "concat (map (\<lambda>(h', r5). concat (map (K h') (lit CHR '':'' r5)))
           (re_H (digit_char a # digit_char b # CHR '':'' # r))) = K (10 * a + b) r"
  using assms
  by (auto simp: re_H_def two_def one_def lit_def digit_char_simps)

lemma stage_M:
  assumes "a < 10" and "b < 10" and "10 * a + b < 60"
  shows "map (\<lambda>(mi, r7). K mi r7) (re_M [digit_char a, digit_char b])
         = [K (10 * a + b) [], K a [digit_char b]]"
  using assms
  by (auto simp: re_M_def two_def one_def digit_char_simps)


text \<open>
  The whole expression has two matches on such a string; the first one, which is the one
  the matcher reports, takes both digits of the minute and reaches the end.
\<close>

lemma matches_digits:
  assumes "a1 < 10" "b1 < 10" "1 \<le> 10 * a1 + b1" "10 * a1 + b1 \<le> 12"
    and "a2 < 10" "b2 < 10" "1 \<le> 10 * a2 + b2" "10 * a2 + b2 \<le> 31"
    and "a3 < 10" "b3 < 10" "10 * a3 + b3 < 24"
    and "a4 < 10" "b4 < 10" "10 * a4 + b4 < 60"
  shows "matches (digit_char a1 # digit_char b1 # CHR ''/'' # digit_char a2 # digit_char b2
                  # CHR '' '' # digit_char a3 # digit_char b3 # CHR '':''
                  # [digit_char a4, digit_char b4])
         = [(10 * a1 + b1, 10 * a2 + b2, 10 * a3 + b3, 10 * a4 + b4, []),
            (10 * a1 + b1, 10 * a2 + b2, 10 * a3 + b3, a4, [digit_char b4])]"
  using assms unfolding matches_def
  by (simp add: stage_m stage_d stage_H stage_M)

lemma matches_short_date:
  assumes "1 \<le> m" "m \<le> 12" "1 \<le> d" "d \<le> 31" "h < 24" "mi < 60"
  shows "matches (short_date m d h mi)
         = [(m, d, h, mi, []), (m, d, h, mi div 10, [digit_char (mi mod 10)])]"
  using assms
    matches_digits [of "m div 10" "m mod 10" "d div 10" "d mod 10" "h div 10" "h mod 10"
                       "mi div 10" "mi mod 10"]
  by (simp add: short_date_def pad2_def)

lemma strptime_short_date:
  assumes "1 \<le> m" "m \<le> 12" "1 \<le> d" "d \<le> 31" "h < 24" "mi < 60"
  shows "strptime (short_date m d h mi) =
           (if days_in_month 1900 m < d then Inl ValueError
            else Inr \<lparr>year = 1900, month = m, day = d, hour = h, minute = mi, second = 0\<rparr>)"
  by (simp add: strptime_def matches_short_date [OF assms])

lemma days_in_month_le: "days_in_month y m \<le> 31"
  by (simp add: days_in_month_def)

lemma days_in_month_1900: "days_in_month 1900 m \<le> days_in_month y m"
  by (simp add: days_in_month_def is_leap_def)

lemma short_date_not_relative:
  "take 5 (short_date m d h mi) \<noteq> ''Today''" "take 9 (short_date m d h mi) \<noteq> ''Yesterday''"
  by (simp_all add: short_date_def pad2_def)

text \<open>
  A month and day that exist in 1900, the year \<open>strptime\<close> checks them in, come back
  with the year of the reference time, whether that date is before or after it.
\<close>

lemma fix_date_short_short_date:
  assumes "1 \<le> year now" "year now \<le> 9999"
    and "1 \<le> m" "m \<le> 12" "1 \<le> d" "d \<le> days_in_month 1900 m" "h < 24" "mi < 60"
  shows "fix_date_short now (short_date m d h mi) =
           Inr (isoformat \<lparr>year = year now, month = m, day = d, hour = h, minute = mi,
                           second = 0\<rparr>)"
proof -
  have d31: "d \<le> 31"
    using assms(6) days_in_month_le [of 1900 m] by simp
  have dy: "d \<le> days_in_month (year now) m"
    using assms(6) days_in_month_1900 [of m "year now"] by simp
  have "try_block now (short_date m d h mi) =
          (Some \<lparr>year = year now, month = m, day = d, hour = h, minute = mi, second = 0\<rparr>, None)"
    using assms(1,2,6) dy
    by (simp add: try_block_def strptime_short_date [OF assms(3,4,5) d31 assms(7,8)]
          replace_year_def)
  then show ?thesis
    by (simp add: fix_date_short_returns return_result_def)
qed

text \<open>
  A day that does not exist in that month of 1900 ends in the \<open>UnboundLocalError\<close>; the
  29th of February is such a day, in every reference year.
\<close>

lemma fix_date_short_missing_day:
  assumes "1 \<le> m" "m \<le> 12" "days_in_month 1900 m < d" "d \<le> 31" "h < 24" "mi < 60"
  shows "fix_date_short now (short_date m d h mi) = Inl (UnboundLocalError ''result'')"
proof -
  have "1 \<le> d"
    using assms(3) by simp
  then have "try_block now (short_date m d h mi) = (None, Some ValueError)"
    using assms(3)
    by (simp add: try_block_def strptime_short_date [OF assms(1,2) _ assms(4,5,6)])
  then have "fix_date_short now (short_date m d h mi) = return_result None"
    by (rule fix_date_short_falls_through) (rule short_date_not_relative)+
  then show ?thesis
    by (simp add: return_result_def)
qed

text \<open>
  \<open>Today\<close> and \<open>Yesterday\<close> both stand for the month and day of the reference time:
  the date the call returns is today's for either word, and on the 29th of February
  neither is accepted.
\<close>

lemma strptime_letter:
  "strptime (CHR ''T'' # s) = Inl ValueError" "strptime (CHR ''Y'' # s) = Inl ValueError"
  by (simp_all add: strptime_def matches_def re_m_def two_def one_def in_range_def
        split: list.splits)

lemma fix_date_short_relative:
  assumes "valid_datetime now" and "h < 24" and "mi < 60"
  shows "fix_date_short now (''Today '' @ pad2 h @ '':'' @ pad2 mi)
           = fix_date_short now (short_date (month now) (day now) h mi)"
    and "fix_date_short now (''Yesterday '' @ pad2 h @ '':'' @ pad2 mi)
           = fix_date_short now (short_date (month now) (day now) h mi)"
proof -
  have "try_block now (''Today '' @ pad2 h @ '':'' @ pad2 mi) = (None, Some ValueError)"
    by (simp add: try_block_def strptime_letter)
  from fix_date_short_today [OF this]
  show "fix_date_short now (''Today '' @ pad2 h @ '':'' @ pad2 mi)
           = fix_date_short now (short_date (month now) (day now) h mi)"
    by (simp add: short_date_def strftime_md_def)
  have "try_block now (''Yesterday '' @ pad2 h @ '':'' @ pad2 mi) = (None, Some ValueError)"
    by (simp add: try_block_def strptime_letter)
  from fix_date_short_yesterday [OF this]
  show "fix_date_short now (''Yesterday '' @ pad2 h @ '':'' @ pad2 mi)
           = fix_date_short now (short_date (month now) (day now) h mi)"
    by (simp add: short_date_def strftime_md_def)
qed


lemma valid_day_1900:
  assumes "valid_datetime now" and "\<not> (month now = 2 \<and> day now = 29)"
  shows "day now \<le> days_in_month 1900 (month now)"
  using assms
  by (auto simp: valid_datetime_def days_in_month_def is_leap_def split: if_splits)

lemma fix_date_short_relative_date:
  assumes "valid_datetime now" and "\<not> (month now = 2 \<and> day now = 29)"
    and "h < 24" and "mi < 60"
  shows "fix_date_short now (''Today '' @ pad2 h @ '':'' @ pad2 mi) =
           Inr (isoformat \<lparr>year = year now, month = month now, day = day now, hour = h,
                           minute = mi, second = 0\<rparr>)"
    and "fix_date_short now (''Yesterday '' @ pad2 h @ '':'' @ pad2 mi) =
           Inr (isoformat \<lparr>year = year now, month = month now, day = day now, hour = h,
                           minute = mi, second = 0\<rparr>)"
  using assms(1) fix_date_short_relative [OF assms(1,3,4)]
    fix_date_short_short_date [of now "month now" "day now" h mi]
    valid_day_1900 [OF assms(1,2)] assms(3,4)
  by (simp_all add: valid_datetime_def)

lemma fix_date_short_relative_leap_day:
  assumes "valid_datetime now" and "month now = 2" and "day now = 29"
    and "h < 24" and "mi < 60"
  shows "fix_date_short now (''Today '' @ pad2 h @ '':'' @ pad2 mi) =
           Inl (UnboundLocalError ''result'')"
    and "fix_date_short now (''Yesterday '' @ pad2 h @ '':'' @ pad2 mi) =
           Inl (UnboundLocalError ''result'')"
  using fix_date_short_relative [OF assms(1,4,5)]
    fix_date_short_missing_day [of 2 29 h mi now] assms(2,3,4,5)
  by (simp_all add: days_in_month_def is_leap_def)

subsection \<open>The claims about dates\<close>

lemma strptime_not_a_date: "strptime ''not-a-date'' = Inl ValueError"
  by code_simp

text \<open>
  C1. The claim: on a string of none of the three shapes, \<open>fix_date_short\<close> fails with a
  parse error that carries the string. The code, on \<open>not-a-date\<close> and at any reference
  time: \<open>strptime\<close> raises \<open>ValueError\<close>, the handler finds neither \<open>Today\<close> nor
  \<open>Yesterday\<close> and raises nothing, and the last line reads the local variable \<open>result\<close>,
  which was never bound. The exception is an \<open>UnboundLocalError\<close> naming that variable;
  it does not carry the string.
\<close>

theorem fix_date_short_unrecognised_unbound:
  "fix_date_short now ''not-a-date'' = Inl (UnboundLocalError ''result'')"
proof -
  have "try_block now ''not-a-date'' = (None, Some ValueError)"
    by (simp add: try_block_def strptime_not_a_date)
  then have "fix_date_short now ''not-a-date'' = return_result None"
    by (rule fix_date_short_falls_through) simp_all
  then show ?thesis
    by (simp add: return_result_def)
qed

text \<open>
  C3. The claim: at every reference time, \<open>Today HH:MM\<close> and \<open>Yesterday HH:MM\<close> give the
  reference date with that time. The code, on the 29th of February 2024: the string
  becomes \<open>02/29 14:30\<close>, which \<open>strptime\<close> reads in the year 1900, where that day does not
  exist; it raises \<open>ValueError\<close>, and the call ends in the \<open>UnboundLocalError\<close> of C1
  where the claim has \<open>2024-02-29T14:30:00\<close>. On every other day of the calendar the
  claim holds (\<open>fix_date_short_relative_date\<close>); on that day it fails for every time of
  day (\<open>fix_date_short_relative_leap_day\<close>).
\<close>

theorem fix_date_short_today_on_leap_day:
  "fix_date_short leap_day ''Today 14:30'' = Inl (UnboundLocalError ''result'')
   \<and> fix_date_short leap_day ''Yesterday 09:00'' = Inl (UnboundLocalError ''result'')"
  by code_simp

text \<open>The two examples of the spec, at its reference time, do hold.\<close>

lemma fix_date_short_spec_examples:
  "fix_date_short example_now ''Today 14:30'' = Inr ''2024-03-05T14:30:00''"
  "fix_date_short example_now ''Yesterday 09:00'' = Inr ''2024-03-05T09:00:00''"
  by code_simp+

text \<open>
  C5. The claim: every \<open>MM/DD HH:MM\<close> comes back as that day and time of the reference
  year. The code, on \<open>02/29 10:00\<close> with the reference year 2024, a leap year: \<open>strptime\<close>
  checks the day against the year 1900 before \<open>replace\<close> puts 2024 in, raises
  \<open>ValueError\<close>, and the call ends in the \<open>UnboundLocalError\<close> of C1 where the claim has
  \<open>2024-02-29T10:00:00\<close>. For a month and day that exist in 1900 the claim holds, the
  date being past or to come (\<open>fix_date_short_short_date\<close>); the 29th of February is
  the one date of a leap year that does not (\<open>fix_date_short_missing_day\<close>).
\<close>

theorem fix_date_short_feb_29:
  "year example_now = 2024 \<and> is_leap 2024
   \<and> fix_date_short example_now ''02/29 10:00'' = Inl (UnboundLocalError ''result'')"
  by code_simp

text \<open>A date later in the year than the reference time keeps the reference year.\<close>

lemma fix_date_short_future_date:
  "fix_date_short example_now ''12/31 23:59'' = Inr ''2024-12-31T23:59:00''"
  by code_simp

section \<open>Properties of \<open>_validate_response\<close>\<close>

lemma validate_response_aiohttp_200:
  "validate_response loads (aiohttp_response loads 200 json_mimetype body)
     = await_json loads json_mimetype body"
  by (simp add: validate_response_def aiohttp_response_def getattr_def then_do_def
        call_await_def)

lemma small_body_decodes:
  "example_loads small_body = Inr small_payload"
  "strip small_body = small_body"
  "example_loads [] = Inl JSONDecodeError"
  "example_loads ''not json'' = Inl JSONDecodeError"
  "strip ''not json'' = ''not json''"
  by code_simp+

lemma small_body_not_blank: "small_body \<noteq> []"
  by (simp add: small_body_def)

text \<open>
  C6. The claim: on every response with status 200, \<open>_validate_response\<close> returns the
  decoded body, and fails when the body is not valid JSON. The code returns what
  \<open>await response.json()\<close> gives, and that is not always the decoding of the body: on a
  reply with status 200, a Content-Type that is no JSON mimetype and the body \<open>{"a":1}\<close>,
  which the decoder accepts, the call raises \<open>ContentTypeError\<close>; on a reply with status 200
  and an empty body, which the decoder rejects, the call returns \<open>None\<close>.
\<close>

theorem validate_response_200_not_the_decoded_body:
  "example_loads small_body = Inr small_payload
   \<and> validate_response example_loads (aiohttp_response example_loads 200 False small_body)
     = Inl ContentTypeError
   \<and> example_loads [] = Inl JSONDecodeError
   \<and> validate_response example_loads (client_response example_loads 200 []) = Inr JNull"
  by (simp add: client_response_def validate_response_aiohttp_200 await_json_def
        small_body_decodes strip_def)

text \<open>
  C6, amended: on every response with status 200, \<open>_validate_response\<close> returns the
  outcome of \<open>await response.json()\<close> unchanged, the value it returns or the exception it
  raises. On a response of \<open>aiohttp\<close> that outcome is \<open>ContentTypeError\<close> when the
  Content-Type of the reply is no JSON mimetype, \<open>None\<close> when the body is blank, and
  otherwise what the decoder makes of the body without the white space around it: the
  decoded value, or the decoder's exception when the body is not valid JSON. (The spec
  calls that exception \<open>MalformedPayloadError\<close>; the code has no class for it and lets the
  decoder's own through.)
\<close>

theorem validate_response_200_json_outcome:
  "(response ''status'' = Some (PInt 200) \<and> response ''json'' = Some (PAsyncMethod r)
      \<longrightarrow> validate_response loads response = r)
   \<and> validate_response loads (aiohttp_response loads 200 json_mimetype body)
     = (if json_mimetype
        then (if strip body = [] then Inr JNull else loads (strip body))
        else Inl ContentTypeError)"
proof (intro conjI impI)
  assume "response ''status'' = Some (PInt 200) \<and> response ''json'' = Some (PAsyncMethod r)"
  then show "validate_response loads response = r"
    by (simp add: validate_response_def getattr_def then_do_def call_await_def)
next
  show "validate_response loads (aiohttp_response loads 200 json_mimetype body)
     = (if json_mimetype
        then (if strip body = [] then Inr JNull else loads (strip body))
        else Inl ContentTypeError)"
    by (simp add: validate_response_aiohttp_200 await_json_def)
qed

theorem validate_response_200_json_outcome_witness:
  "validate_response example_loads (client_response example_loads 200 small_body)
     = Inr (JObj [(''a'', JNum 1)])
   \<and> validate_response example_loads (client_response example_loads 200 ''not json'')
     = Inl JSONDecodeError
   \<and> validate_response example_loads
       [''status'' \<mapsto> PInt 200, ''json'' \<mapsto> PAsyncMethod (Inr (JObj [(''a'', JNum 1)]))]
     = Inr (JObj [(''a'', JNum 1)])"
  using validate_response_200_json_outcome
          [of "[''status'' \<mapsto> PInt 200, ''json'' \<mapsto> PAsyncMethod (Inr (JObj [(''a'', JNum 1)]))]"
              "Inr (JObj [(''a'', JNum 1)])" example_loads True small_body]
        validate_response_200_json_outcome
          [of "Map.empty" "Inl ValueError" example_loads True "''not json''"]
  by (simp add: client_response_def small_body_decodes small_body_not_blank small_payload_def)

text \<open>
  C2. The claim: on a status other than 200, \<open>_validate_response\<close> raises
  \<open>ResponseError\<close> with the status and the decoded body. The code, on a response with
  status 403 and a JSON body: it tests \<open>response.status\<close> and then reads
  \<open>response.status_code\<close>, an attribute the response of \<open>aiohttp\<close> does not have. The
  exception is an \<open>AttributeError\<close>; no \<open>ResponseError\<close> is built.
\<close>

theorem validate_response_non_200_attribute_error:
  "validate_response example_loads (client_response example_loads 403 error_body)
     = Inl (AttributeError ''status_code'')"
  by (simp add: validate_response_def client_response_def aiohttp_response_def getattr_def
        then_do_def)

text \<open>The same on every status other than 200, whatever the body and the decoder.\<close>

lemma validate_response_never_response_error:
  "status \<noteq> 200 \<Longrightarrow>
   validate_response loads (client_response loads status body) = Inl (AttributeError ''status_code'')"
  by (simp add: validate_response_def client_response_def aiohttp_response_def getattr_def
        then_do_def)

text \<open>
  On an object that does have \<open>status_code\<close> and a \<open>str\<close> under \<open>text\<close>, the last line does
  what the claim says: the exception of the decoder, or \<open>ResponseError\<close> with that status
  and the decoded body.
\<close>

lemma validate_response_with_status_code:
  assumes "response ''status'' = Some status" and "status \<noteq> PInt 200"
    and "response ''status_code'' = Some code" and "response ''text'' = Some (PStr body)"
  shows "validate_response loads response =
           (case loads body of Inl e \<Rightarrow> Inl e | Inr decoded \<Rightarrow> Inl (ResponseError code decoded))"
  using assms
  by (simp add: validate_response_def getattr_def then_do_def response_error_def
        json_loads_def split: sum.splits)

section \<open>The state of a \<open>Session\<close>\<close>

lemma send_this: "this (snd (send net prepared w)) = this w"
  by (simp add: send_def split: sum.splits)

lemma exchange_this: "this (snd (exchange net loads prepared w)) = this w"
  using send_this [of net prepared w]
  by (simp add: exchange_def split_def Let_def)

lemma run_call_this: "this (snd (run_call net loads now c w)) = this w"
  by (cases c)
     (simp_all add: get_arm_state_def get_temperature_def get_ethernet_status_def
        get_lock_devices_def get_lock_status_def set_arm_state_def get_history_def
        lock_doorlock_def unlock_doorlock_def get_lock_config_def logout_def
        split_def Let_def exchange_this)

lemma run_calls_this: "this (run_calls cs w) = this w"
proof (induction cs arbitrary: w)
  case Nil
  show ?case by simp
next
  case (Cons c cs)
  obtain net loads now k where c: "c = (net, loads, now, k)"
    by (cases c)
  show ?case
    by (simp add: c Cons.IH run_call_this)
qed

text \<open>
  C9. No operation changes the attributes of the \<open>Session\<close> object, whatever the
  transport answers and whether the operation returns or raises; so after any sequence
  of calls the attributes are those that \<open>__init__\<close> set.
\<close>

theorem session_attributes_unchanged:
  "this (snd (run_call net loads now c w)) = this w
   \<and> this (run_calls cs (init username password panel)) = this (init username password panel)"
  by (simp add: run_call_this run_calls_this)

lemma exchange_unprepared: "exchange net loads (Inl e) w = (Inl e, w)"
  by (simp add: exchange_def send_def then_do_def)

lemma no_giid_no_vid:
  assumes "this w = this (init username password panel)"
  shows "set_arm_state_request (this w) code state = Inl (AttributeError ''_giid'')"
    and "get_lock_config_request (this w) device_label = Inl (AttributeError ''_giid'')"
    and "logout_request (this w) = Inl (AttributeError ''_vid'')"
  by (simp_all add: assms init_def set_arm_state_request_def get_lock_config_request_def
        logout_request_def client_method_def getattr_def then_do_def)

text \<open>
  C10. On a session made by \<open>__init__\<close>, and after any calls on it, \<open>set_arm_state\<close> and
  \<open>get_lock_config\<close> raise \<open>AttributeError\<close> for \<open>_giid\<close> and \<open>logout\<close> raises it for
  \<open>_vid\<close>, whatever the transport would answer; the world is left as it was, so no
  request was handed to the transport.
\<close>

theorem cookie_operations_fail:
  "set_arm_state net loads code state (run_calls cs (init username password panel))
     = (Inl (AttributeError ''_giid''), run_calls cs (init username password panel))
   \<and> get_lock_config net loads device_label (run_calls cs (init username password panel))
     = (Inl (AttributeError ''_giid''), run_calls cs (init username password panel))
   \<and> logout net loads (run_calls cs (init username password panel))
     = (Inl (AttributeError ''_vid''), run_calls cs (init username password panel))"
  by (simp add: set_arm_state_def get_lock_config_def logout_def
        no_giid_no_vid [OF run_calls_this] exchange_unprepared then_do_def)

section \<open>Properties of the operations\<close>

text \<open>Assignment to a key changes that key only, and keeps the order of the keys.\<close>

lemma map_of_dict_set:
  "map_of (dict_set k v kvs) k' = (if k' = k then Some v else map_of kvs k')"
  by (induction kvs) auto

lemma keys_dict_set:
  "map_of kvs k \<noteq> None \<Longrightarrow> map fst (dict_set k v kvs) = map fst kvs"
  by (induction kvs) auto

text \<open>
  An exchange that the server answers with status 200: the result is what decoding the
  body gave, and the request is on record.
\<close>

lemma exchange_200:
  assumes "net req = Inr response" and "response ''status'' = Some (PInt 200)"
    and "response ''json'' = Some (PAsyncMethod r)"
  shows "exchange net loads (Inr req) w = (r, w\<lparr>sent := sent w @ [req]\<rparr>)"
  using assms
  by (simp add: exchange_def send_def validate_response_def getattr_def then_do_def
        call_await_def)

text \<open>The examples: the request of the example session, its decoder, and three dates.\<close>

lemma example_request:
  "credentials_get (this example_session) f extra ps =
     Inr \<lparr>verb = ''get'',
          url = Url f ([PStr ''user'', PStr ''secret'', PStr ''panel-1''] @ extra),
          headers = [], params = ps, data = None\<rparr>"
  by (simp add: credentials_get_def example_session_def init_def client_method_def
        getattr_def then_do_def)

lemma example_loads_simps:
  "example_loads arm_state_body = Inr arm_state_payload"
  "example_loads temperature_body = Inr temperature_payload"
  "example_loads history_body = Inr history_payload"
  "example_loads malformed_history_body = Inr malformed_history_payload"
  by code_simp+

lemma example_json:
  "await_json example_loads True arm_state_body = Inr arm_state_payload"
  "await_json example_loads True temperature_body = Inr temperature_payload"
  "await_json example_loads True history_body = Inr history_payload"
  "await_json example_loads True malformed_history_body = Inr malformed_history_payload"
  by code_simp+

lemma example_dates:
  "fix_date_short example_now ''03/04 21:15'' = Inr ''2024-03-04T21:15:00''"
  "fix_date_short example_now ''Today 14:30'' = Inr ''2024-03-05T14:30:00''"
  "fix_date_short example_now ''not-a-date'' = Inl (UnboundLocalError ''result'')"
  by code_simp+

text \<open>
  C4. The claim: \<open>get_arm_state\<close> returns the payload with its \<open>time\<close> field normalized.
  The code reads and assigns the key \<open>timeex\<close>. On a payload that has both keys it leaves
  \<open>time\<close> as it came and normalizes \<open>timeex\<close>, which is not what the claim describes.
\<close>

theorem get_arm_state_leaves_time:
  "fst (get_arm_state (replies example_loads 200 arm_state_body) example_loads example_now
          example_session)
     = Inr (JObj [(''ArmedStatus'', JStr ''disarmed''), (''time'', JStr ''Today 14:30''),
                  (''timeex'', JStr ''2024-03-04T21:15:00'')])
   \<and> arm_state_as_claimed example_now arm_state_payload
     = Inr (JObj [(''ArmedStatus'', JStr ''disarmed''), (''time'', JStr ''2024-03-05T14:30:00''),
                  (''timeex'', JStr ''03/04 21:15'')])
   \<and> fst (get_arm_state (replies example_loads 200 arm_state_body) example_loads example_now
          example_session)
     \<noteq> arm_state_as_claimed example_now arm_state_payload"
  by code_simp

text \<open>
  C4, amended: on a status 200 whose payload is an object with a string under
  \<open>timeex\<close> that \<open>fix_date_short\<close> accepts, \<open>get_arm_state\<close> returns the payload with
  the value under \<open>timeex\<close> replaced by its normalized form; by \<open>map_of_dict_set\<close> and
  \<open>keys_dict_set\<close> every other key, \<open>time\<close> among them, keeps its value and its place.
\<close>

theorem get_arm_state_normalizes_timeex:
  assumes "credentials_get (this w) ''status'' [] [] = Inr req"
    and "net req = Inr response"
    and "response ''status'' = Some (PInt 200)"
    and "response ''json'' = Some (PAsyncMethod (Inr (JObj kvs)))"
    and "map_of kvs ''timeex'' = Some (JStr t)"
    and "fix_date_short now t = Inr stamp"
  shows "fst (get_arm_state net loads now w) = Inr (JObj (dict_set ''timeex'' (JStr stamp) kvs))"
  using assms(5,6)
  by (simp add: get_arm_state_def assms(1) exchange_200 [of net req response "Inr (JObj kvs)", OF assms(2,3,4)] then_do_def
        getitem_def setitem_def fix_date_short_value_def)

theorem get_arm_state_normalizes_timeex_witness:
  "fst (get_arm_state (replies example_loads 200 arm_state_body) example_loads example_now
          example_session)
     = Inr (JObj [(''ArmedStatus'', JStr ''disarmed''), (''time'', JStr ''Today 14:30''),
                  (''timeex'', JStr ''2024-03-04T21:15:00'')])"
  using get_arm_state_normalizes_timeex [of example_session _ "replies example_loads 200 arm_state_body"
              "client_response example_loads 200 arm_state_body"
              "[(''ArmedStatus'', JStr ''disarmed''), (''time'', JStr ''Today 14:30''),
                (''timeex'', JStr ''03/04 21:15'')]"
              "''03/04 21:15''" example_now "''2024-03-04T21:15:00''" example_loads,
            OF example_request]
  by (simp add: replies_def client_response_def aiohttp_response_def example_json arm_state_payload_def example_dates)

text \<open>Rows that are objects with a \<open>serialNo\<close>: the comprehension is a filter.\<close>

lemma filter_serial_objects:
  "list_all (\<lambda>fields. map_of fields ''serialNo'' \<noteq> None) readings \<Longrightarrow>
   filter_serial label (map JObj readings) =
     Inr (map JObj (filter (\<lambda>fields. map_of fields ''serialNo'' = Some (JStr label)) readings))"
  by (induction readings) (auto simp: getitem_def then_do_def)

text \<open>
  C7. On a status 200 whose payload is an object with a list of readings under
  \<open>temperatureComponentList\<close>, each reading an object with a \<open>serialNo\<close>:
  with a device label, the list in the result holds exactly the readings whose
  \<open>serialNo\<close> is that label, in their order (none when none matches), and the rest of
  the payload is as it came; without a label the payload is returned as it came.
\<close>

theorem get_temperature_filters_by_serial:
  assumes "credentials_get (this w) ''get_temperature'' [] [] = Inr req"
    and "net req = Inr response"
    and "response ''status'' = Some (PInt 200)"
    and "response ''json'' = Some (PAsyncMethod (Inr (JObj kvs)))"
    and "map_of kvs ''temperatureComponentList'' = Some (JArr (map JObj readings))"
    and "list_all (\<lambda>fields. map_of fields ''serialNo'' \<noteq> None) readings"
  shows "fst (get_temperature net loads (Some label) w) =
           Inr (JObj (dict_set ''temperatureComponentList''
                  (JArr (map JObj (filter (\<lambda>fields. map_of fields ''serialNo'' = Some (JStr label))
                                     readings))) kvs))
         \<and> fst (get_temperature net loads None w) = Inr (JObj kvs)"
  using assms(5)
  by (simp add: get_temperature_def assms(1)
        exchange_200 [of net req response "Inr (JObj kvs)", OF assms(2,3,4)] then_do_def
        getitem_def setitem_def iterate_def filter_serial_objects [OF assms(6)])

theorem get_temperature_filters_by_serial_witness:
  "fst (get_temperature (replies example_loads 200 temperature_body) example_loads
          (Some ''ABC123'') example_session)
     = Inr (JObj [(''temperatureComponentList'',
                   JArr [JObj [(''serialNo'', JStr ''ABC123''), (''temperature'', JStr ''21'')]])])
   \<and> fst (get_temperature (replies example_loads 200 temperature_body) example_loads
          (Some ''QRS000'') example_session)
     = Inr (JObj [(''temperatureComponentList'', JArr [])])
   \<and> fst (get_temperature (replies example_loads 200 temperature_body) example_loads
          None example_session)
     = Inr temperature_payload"
  using get_temperature_filters_by_serial [of example_session _ "replies example_loads 200 temperature_body"
              "client_response example_loads 200 temperature_body"
              "[(''temperatureComponentList'',
                 JArr [JObj [(''serialNo'', JStr ''ABC123''), (''temperature'', JStr ''21'')],
                       JObj [(''serialNo'', JStr ''XYZ999''), (''temperature'', JStr ''19'')]])]"
              "[[(''serialNo'', JStr ''ABC123''), (''temperature'', JStr ''21'')],
                [(''serialNo'', JStr ''XYZ999''), (''temperature'', JStr ''19'')]]"
              example_loads "''ABC123''",
            OF example_request]
        get_temperature_filters_by_serial [of example_session _ "replies example_loads 200 temperature_body"
              "client_response example_loads 200 temperature_body"
              "[(''temperatureComponentList'',
                 JArr [JObj [(''serialNo'', JStr ''ABC123''), (''temperature'', JStr ''21'')],
                       JObj [(''serialNo'', JStr ''XYZ999''), (''temperature'', JStr ''19'')]])]"
              "[[(''serialNo'', JStr ''ABC123''), (''temperature'', JStr ''21'')],
                [(''serialNo'', JStr ''XYZ999''), (''temperature'', JStr ''19'')]]"
              example_loads "''QRS000''",
            OF example_request]
  by (simp add: replies_def client_response_def aiohttp_response_def example_json temperature_payload_def)

text \<open>
  The loop over rows that are objects with a string under \<open>time\<close>: when every string is
  accepted each row gets its own normalized time, and one string that is not accepted
  makes the loop raise.
\<close>

lemma fix_rows_all:
  "list_all2 (\<lambda>fields t. map_of fields ''time'' = Some (JStr t)) entries ts \<Longrightarrow>
   list_all2 (\<lambda>t stamp. fix_date_short now t = Inr stamp) ts stamps \<Longrightarrow>
   fix_rows now (map JObj entries) =
     Inr (map2 (\<lambda>fields stamp. JObj (dict_set ''time'' (JStr stamp) fields)) entries stamps)"
proof (induction entries arbitrary: ts stamps)
  case Nil
  then show ?case by simp
next
  case (Cons fields entries)
  from Cons.prems(1) obtain t ts' where ts: "ts = t # ts'"
    and t: "map_of fields ''time'' = Some (JStr t)"
    and rest: "list_all2 (\<lambda>fields t. map_of fields ''time'' = Some (JStr t)) entries ts'"
    by (auto simp: list_all2_Cons1)
  from Cons.prems(2) ts obtain stamp stamps' where stamps: "stamps = stamp # stamps'"
    and stamp: "fix_date_short now t = Inr stamp"
    and rest': "list_all2 (\<lambda>t stamp. fix_date_short now t = Inr stamp) ts' stamps'"
    by (auto simp: list_all2_Cons1)
  from Cons.IH [OF rest rest'] t stamp show ?case
    by (simp add: stamps getitem_def setitem_def fix_date_short_value_def then_do_def)
qed

lemma fix_rows_any:
  "list_all2 (\<lambda>fields t. map_of fields ''time'' = Some (JStr t)) entries ts \<Longrightarrow>
   t \<in> set ts \<Longrightarrow> fix_date_short now t = Inl e \<Longrightarrow>
   fix_rows now (map JObj entries) = Inl (UnboundLocalError ''result'')"
proof (induction entries arbitrary: ts)
  case Nil
  then show ?case by simp
next
  case (Cons fields entries)
  from Cons.prems(1) obtain t0 ts' where ts: "ts = t0 # ts'"
    and t0: "map_of fields ''time'' = Some (JStr t0)"
    and rest: "list_all2 (\<lambda>fields t. map_of fields ''time'' = Some (JStr t)) entries ts'"
    by (auto simp: list_all2_Cons1)
  show ?case
  proof (cases "fix_date_short now t0")
    case (Inl e0)
    then have "e0 = UnboundLocalError ''result''"
      by (rule fix_date_short_error)
    with Inl t0 show ?thesis
      by (simp add: getitem_def fix_date_short_value_def then_do_def)
  next
    case (Inr stamp)
    with Cons.prems(2,3) ts have "t \<in> set ts'"
      by auto
    from Cons.IH [OF rest this Cons.prems(3)] Inr t0 show ?thesis
      by (simp add: getitem_def setitem_def fix_date_short_value_def then_do_def)
  qed
qed

text \<open>
  What \<open>get_history\<close> does, by what \<open>fix_date_short\<close> does with the strings: on a status
  200 whose payload is an object with a list of entries under \<open>logs\<close>, each an object
  with a string under \<open>time\<close>, when \<open>fix_date_short\<close> accepts every one of the strings
  the result is the payload with each entry's \<open>time\<close> replaced by the normalized form of
  that entry's own string; when it rejects one of them, the call raises the
  \<open>UnboundLocalError\<close> of its last line and returns no payload, so no entry is skipped.
\<close>

lemma get_history_by_entries:
  assumes "credentials_get (this w) ''history'' [] [(''startIndex'', offset)] = Inr req"
    and "net req = Inr response"
    and "response ''status'' = Some (PInt 200)"
    and "response ''json'' = Some (PAsyncMethod (Inr (JObj kvs)))"
    and "map_of kvs ''logs'' = Some (JArr (map JObj entries))"
    and "list_all2 (\<lambda>fields t. map_of fields ''time'' = Some (JStr t)) entries ts"
  shows "(list_all2 (\<lambda>t stamp. fix_date_short now t = Inr stamp) ts stamps \<longrightarrow>
            fst (get_history net loads now offset w) =
              Inr (JObj (dict_set ''logs''
                     (JArr (map2 (\<lambda>fields stamp. JObj (dict_set ''time'' (JStr stamp) fields))
                              entries stamps)) kvs)))
         \<and> ((\<exists>t \<in> set ts. \<exists>e. fix_date_short now t = Inl e) \<longrightarrow>
            fst (get_history net loads now offset w) = Inl (UnboundLocalError ''result''))"
proof -
  have run: "fst (get_history net loads now offset w) =
               then_do (fix_rows now (map JObj entries))
                 (\<lambda>rows'. Inr (JObj (dict_set ''logs'' (JArr rows') kvs)))"
    using assms(5)
    by (simp add: get_history_def assms(1)
          exchange_200 [of net req response "Inr (JObj kvs)", OF assms(2,3,4)] then_do_def
          getitem_def setitem_def iterate_def split: sum.splits)
  show ?thesis
    by (auto simp: run then_do_def fix_rows_all [OF assms(6)] fix_rows_any [OF assms(6)])
qed

lemma get_history_by_entries_examples:
  "fst (get_history (replies example_loads 200 history_body) example_loads example_now 0
          example_session)
     = Inr (JObj [(''logs'',
              JArr [JObj [(''time'', JStr ''2024-03-05T14:30:00''), (''event'', JStr ''armed'')],
                    JObj [(''event'', JStr ''disarmed''), (''time'', JStr ''2024-03-04T21:15:00'')]])])
   \<and> fst (get_history (replies example_loads 200 malformed_history_body) example_loads
          example_now 0 example_session)
     = Inl (UnboundLocalError ''result'')"
  using get_history_by_entries [of example_session 0 _ "replies example_loads 200 history_body"
              "client_response example_loads 200 history_body"
              "[(''logs'',
                 JArr [JObj [(''time'', JStr ''Today 14:30''), (''event'', JStr ''armed'')],
                       JObj [(''event'', JStr ''disarmed''), (''time'', JStr ''03/04 21:15'')]])]"
              "[[(''time'', JStr ''Today 14:30''), (''event'', JStr ''armed'')],
                [(''event'', JStr ''disarmed''), (''time'', JStr ''03/04 21:15'')]]"
              "[''Today 14:30'', ''03/04 21:15'']" example_now
              "[''2024-03-05T14:30:00'', ''2024-03-04T21:15:00'']" example_loads,
            OF example_request]
        get_history_by_entries [of example_session 0 _ "replies example_loads 200 malformed_history_body"
              "client_response example_loads 200 malformed_history_body"
              "[(''logs'',
                 JArr [JObj [(''time'', JStr ''Today 14:30''), (''event'', JStr ''armed'')],
                       JObj [(''event'', JStr ''disarmed''), (''time'', JStr ''not-a-date'')]])]"
              "[[(''time'', JStr ''Today 14:30''), (''event'', JStr ''armed'')],
                [(''event'', JStr ''disarmed''), (''time'', JStr ''not-a-date'')]]"
              "[''Today 14:30'', ''not-a-date'']" example_now
              "[]" example_loads,
            OF example_request]
  by (simp add: replies_def client_response_def aiohttp_response_def example_json history_payload_def
        malformed_history_payload_def example_dates)

lemma leap_history_json:
  "await_json example_loads True leap_history_body = Inr leap_history_payload"
  by code_simp

text \<open>
  C8. The claim: \<open>get_history\<close> normalizes the \<open>time\<close> of every entry, and fails with a
  parse error when an entry's string has none of the recognized shapes. The code, with
  the clock in 2024, on a payload of two entries with the strings \<open>Today 14:30\<close> and
  \<open>02/29 10:00\<close>, both of a recognized shape: the second string ends \<open>fix_date_short\<close>
  in its \<open>UnboundLocalError\<close> (C5), and the call raises it where the claim has the
  payload with \<open>2024-03-05T14:30:00\<close> and \<open>2024-02-29T10:00:00\<close>. The same on the 29th of
  February with the strings \<open>Today 14:30\<close> and \<open>03/04 21:15\<close> (C3). On an entry with the
  string \<open>not-a-date\<close> the call does fail, not with a parse error but with that same
  \<open>UnboundLocalError\<close> (C1).
\<close>

theorem get_history_raises_on_recognised_entries:
  "fst (get_history (replies example_loads 200 leap_history_body) example_loads example_now 0
          example_session)
     = Inl (UnboundLocalError ''result'')
   \<and> fst (get_history (replies example_loads 200 history_body) example_loads leap_day 0
          example_session)
     = Inl (UnboundLocalError ''result'')
   \<and> fst (get_history (replies example_loads 200 malformed_history_body) example_loads
          example_now 0 example_session)
     = Inl (UnboundLocalError ''result'')"
  by code_simp

end
